theory Spec2Isabelle
  imports Complex_Main
begin

section \<open>Python strings\<close>

text \<open>
  The uploaded files are read with \<^verbatim>\<open>pd.read_csv(..., sep=';', encoding='latin1')\<close> (the
  UTF-8 retry is taken only when that read raises), so a Python \<^verbatim>\<open>str\<close> is modelled as a
  list of Latin-1 code points: one \<^typ>\<open>char\<close> per code point. The accented letters of the
  source's literals are written by code point (\<open>CHR 0xC3\<close> is A-tilde, \<open>CHR 0xC1\<close>
  A-acute, \<open>CHR 0xC7\<close> C-cedilla, \<open>CHR 0xE3\<close> a-tilde). The text arguments of the tools
  are Latin-1 text as well.
\<close>

definition py_isspace :: "char \<Rightarrow> bool" where
  \<comment> \<open>\<^verbatim>\<open>str.isspace\<close> on one Latin-1 code point: the characters \<^verbatim>\<open>str.strip()\<close> removes\<close>
  "py_isspace c =
     (let n = (of_char c :: nat)
      in (9 \<le> n \<and> n \<le> 13) \<or> (28 \<le> n \<and> n \<le> 32) \<or> n = 133 \<or> n = 160)"

definition py_strip :: "string \<Rightarrow> string" where
  \<comment> \<open>\<^verbatim>\<open>s.strip()\<close>\<close>
  "py_strip s = rev (dropWhile py_isspace (rev (dropWhile py_isspace s)))"

definition upper_char :: "char \<Rightarrow> string" where
  \<comment> \<open>\<^verbatim>\<open>c.upper()\<close> for one code point: a..z and the Latin-1 letters 0xE0..0xFE (but the
      division sign 0xF7) lose bit 5, and the sharp s 0xDF becomes \<^verbatim>\<open>'SS'\<close>. The upper case
      of the micro sign 0xB5 and of 0xFF lies outside Latin-1 (U+039C, U+0178); the model
      has no such code point and leaves these two as they are.\<close>
  "upper_char c =
     (let n = (of_char c :: nat)
      in if n = 223 then ''SS''
         else if (97 \<le> n \<and> n \<le> 122) \<or> (224 \<le> n \<and> n \<le> 254 \<and> n \<noteq> 247)
         then [case c of Char b0 b1 b2 b3 b4 b5 b6 b7 \<Rightarrow> Char b0 b1 b2 b3 b4 False b6 b7]
         else [c])"

definition py_upper :: "string \<Rightarrow> string" where
  \<comment> \<open>\<^verbatim>\<open>s.upper()\<close>\<close>
  "py_upper s = concat (map upper_char s)"

definition lower_char :: "char \<Rightarrow> char" where
  \<comment> \<open>the lower case of one code point: A..Z and the Latin-1 letters 0xC0..0xDE (but the
      multiplication sign 0xD7) gain bit 5\<close>
  "lower_char c =
     (let n = (of_char c :: nat)
      in if (65 \<le> n \<and> n \<le> 90) \<or> (192 \<le> n \<and> n \<le> 222 \<and> n \<noteq> 215)
         then (case c of Char b0 b1 b2 b3 b4 b5 b6 b7 \<Rightarrow> Char b0 b1 b2 b3 b4 True b6 b7)
         else c)"

definition is_digit :: "char \<Rightarrow> bool" where
  "is_digit c = (48 \<le> (of_char c :: nat) \<and> (of_char c :: nat) \<le> 57)"

definition digit_val :: "char \<Rightarrow> nat" where
  "digit_val c = of_char c - 48"

definition digit_char :: "nat \<Rightarrow> char" where
  "digit_char d =
     (if d = 0 then CHR ''0'' else if d = 1 then CHR ''1'' else if d = 2 then CHR ''2''
      else if d = 3 then CHR ''3'' else if d = 4 then CHR ''4'' else if d = 5 then CHR ''5''
      else if d = 6 then CHR ''6'' else if d = 7 then CHR ''7'' else if d = 8 then CHR ''8''
      else CHR ''9'')"

definition digits_val :: "string \<Rightarrow> nat" where
  \<comment> \<open>the number a string of decimal digits denotes\<close>
  "digits_val ds = foldl (\<lambda>a c. 10 * a + digit_val c) 0 ds"

fun show_nat :: "nat \<Rightarrow> string" where
  "show_nat n = (if n < 10 then [digit_char n] else show_nat (n div 10) @ [digit_char (n mod 10)])"

declare show_nat.simps [simp del]

definition show_int :: "int \<Rightarrow> string" where
  \<comment> \<open>\<^verbatim>\<open>str(i)\<close> for an integer\<close>
  "show_int i = (if i < 0 then [CHR ''-''] else []) @ show_nat (nat \<bar>i\<bar>)"

section \<open>The arguments of the tools\<close>

text \<open>
  The function-calling layer passes what the language model wrote, so the count \<open>n\<close> of
  the two top-n tools may be an integer, a float, a text or \<^verbatim>\<open>None\<close>. A finite float is
  given by its exact value.
\<close>

datatype pyfloat = Finite rat | Infinite | NotANumber

datatype pyval = PyNone | PyInt int | PyStr string | PyFloat pyfloat

datatype py_error =
  KeyError | AttributeError | ValueError | TypeError | OverflowError | RegexError

definition int_isspace :: "char \<Rightarrow> bool" where
  \<comment> \<open>the padding \<^verbatim>\<open>int()\<close> accepts around a literal: it keeps the separators 0x1C..0x1F,
      which \<^verbatim>\<open>str.strip()\<close> removes\<close>
  "int_isspace c =
     (let n = (of_char c :: nat) in (9 \<le> n \<and> n \<le> 13) \<or> n = 32 \<or> n = 133 \<or> n = 160)"

definition int_strip :: "string \<Rightarrow> string" where
  "int_strip s = rev (dropWhile int_isspace (rev (dropWhile int_isspace s)))"

fun int_digits :: "string \<Rightarrow> string option" where
  \<comment> \<open>the digits of an integer literal: digits with single underscores between them\<close>
  "int_digits [] = None"
| "int_digits [c] = (if is_digit c then Some [c] else None)"
| "int_digits (c # d # r) =
     (if is_digit c
      then (if d = CHR ''_''
            then (if r = [] then None else map_option ((#) c) (int_digits r))
            else map_option ((#) c) (int_digits (d # r)))
      else None)"

definition int_of_str :: "string \<Rightarrow> int option" where
  \<comment> \<open>\<^verbatim>\<open>int(s)\<close> for a text, \<open>None\<close> where it raises \<^verbatim>\<open>ValueError\<close>: padding, an optional
      sign, the digits; more than 4300 digits are refused (the interpreter's default
      \<^verbatim>\<open>int_max_str_digits\<close>)\<close>
  "int_of_str s =
     (case int_strip s of
        [] \<Rightarrow> None
      | c # r \<Rightarrow>
          (case (if c = CHR ''-'' \<or> c = CHR ''+'' then int_digits r else int_digits (c # r)) of
             None \<Rightarrow> None
           | Some ds \<Rightarrow>
               if 4300 < length ds then None
               else Some (if c = CHR ''-'' then - int (digits_val ds) else int (digits_val ds))))"

datatype conversion = Converted int | Rejected string | Raised py_error

definition int_n :: "pyval \<Rightarrow> conversion" where
  \<comment> \<open>lines 99 to 102 and 128 to 131: \<^verbatim>\<open>int(n)\<close> inside \<^verbatim>\<open>try\<close>. \<open>Rejected t\<close> is the
      \<^verbatim>\<open>ValueError\<close> or \<^verbatim>\<open>TypeError\<close> that the \<^verbatim>\<open>except\<close> clause catches, with the text \<open>t\<close>
      that \<^verbatim>\<open>{n}\<close> formats; \<open>Raised\<close> is an exception the clause does not catch. A finite
      float is truncated towards zero.\<close>
  "int_n n =
     (case n of
        PyNone \<Rightarrow> Rejected ''None''
      | PyInt i \<Rightarrow> Converted i
      | PyStr s \<Rightarrow> (case int_of_str s of None \<Rightarrow> Rejected s | Some i \<Rightarrow> Converted i)
      | PyFloat f \<Rightarrow>
          (case f of
             Finite r \<Rightarrow> Converted (if r < 0 then - \<lfloor>- r\<rfloor> else \<lfloor>r\<rfloor>)
           | Infinite \<Rightarrow> Raised OverflowError
           | NotANumber \<Rightarrow> Rejected ''nan''))"

section \<open>Cells and data frames\<close>

text \<open>
  A cell of a data frame is a text, an integer (an element of an \<^verbatim>\<open>int64\<close> column, or a
  Python \<^verbatim>\<open>int\<close> in a column of objects), a float or the missing-value marker \<^verbatim>\<open>NaN\<close>. A
  finite \<^verbatim>\<open>float64\<close> is given by its exact value, so the order of floats is the order of
  the rationals; the two zeros of \<^verbatim>\<open>float64\<close> are one value. What the libraries compute
  \<^emph>\<open>with\<close> floats is not defined here: the text of a float, the parsing of text into
  numbers and the sums of floats are parameters of the functions below, so that every
  statement holds for each behaviour of these library routines.
\<close>

datatype cell = Str string | Intg int | Flt rat | PInf | NInf | NaN

definition is_str :: "cell \<Rightarrow> bool" where
  "is_str c = (case c of Str _ \<Rightarrow> True | _ \<Rightarrow> False)"

definition is_int :: "cell \<Rightarrow> bool" where
  "is_int c = (case c of Intg _ \<Rightarrow> True | _ \<Rightarrow> False)"

definition astype_str :: "(rat \<Rightarrow> string) \<Rightarrow> cell \<Rightarrow> string" where
  \<comment> \<open>\<^verbatim>\<open>Series.astype(str)\<close> on one cell; \<open>float_repr\<close> is \<^verbatim>\<open>str\<close> of a finite float\<close>
  "astype_str float_repr c =
     (case c of
        Str s \<Rightarrow> s
      | Intg i \<Rightarrow> show_int i
      | Flt r \<Rightarrow> float_repr r
      | PInf \<Rightarrow> ''inf''
      | NInf \<Rightarrow> ''-inf''
      | NaN \<Rightarrow> ''nan'')"

definition str_replace_comma :: "string \<Rightarrow> string" where
  \<comment> \<open>\<^verbatim>\<open>.str.replace(',', '.', regex=False)\<close>: every comma becomes a period\<close>
  "str_replace_comma s = map (\<lambda>c. if c = CHR '','' then CHR ''.'' else c) s"

text \<open>
  A \<^verbatim>\<open>pandas.DataFrame\<close> is modelled column by column: the labelled columns in their order
  (labels may repeat, as in pandas) and the length of the index. In a well-formed frame
  every column has one cell per index entry. The index itself is the default one
  (\<open>0, 1, ...\<close>), which is what \<^verbatim>\<open>read_csv\<close> and \<^verbatim>\<open>merge\<close> produce.
\<close>

type_synonym series = "cell list"

record dataframe =
  cols :: "(string \<times> series) list"
  nrows :: nat

definition DataFrame :: dataframe where
  \<comment> \<open>\<^verbatim>\<open>pd.DataFrame()\<close>\<close>
  "DataFrame = \<lparr>cols = [], nrows = 0\<rparr>"

definition wf_frame :: "dataframe \<Rightarrow> bool" where
  "wf_frame df = list_all (\<lambda>col. length (snd col) = nrows df) (cols df)"

definition columns :: "dataframe \<Rightarrow> string list" where
  \<comment> \<open>\<^verbatim>\<open>df.columns\<close>\<close>
  "columns df = map fst (cols df)"

definition df_empty :: "dataframe \<Rightarrow> bool" where
  \<comment> \<open>\<^verbatim>\<open>df.empty\<close>: some axis has length 0\<close>
  "df_empty df = (cols df = [] \<or> nrows df = 0)"

definition labelled :: "dataframe \<Rightarrow> string \<Rightarrow> series list" where
  \<comment> \<open>the columns that carry a label\<close>
  "labelled df c = map snd (filter (\<lambda>col. fst col = c) (cols df))"

definition assign_column :: "string \<Rightarrow> (series \<Rightarrow> series) \<Rightarrow> dataframe \<Rightarrow> dataframe" where
  \<comment> \<open>\<^verbatim>\<open>df[c] = f(df[c])\<close>\<close>
  "assign_column c f df =
     df\<lparr>cols := map (\<lambda>col. if fst col = c then (fst col, f (snd col)) else col) (cols df)\<rparr>"

definition take_rows :: "nat list \<Rightarrow> series \<Rightarrow> series" where
  \<comment> \<open>\<^verbatim>\<open>take\<close>: the cells at the given positions, in that order\<close>
  "take_rows ix vs = map (\<lambda>i. vs ! i) ix"

datatype dtype = Object | Int64 | Float64

definition dtype_of :: "series \<Rightarrow> dtype" where
  \<comment> \<open>the dtype of a column, read from its cells: a column that holds a text is a column of
      objects, a column of integers only is \<^verbatim>\<open>int64\<close>, every other column is \<^verbatim>\<open>float64\<close>.
      (A column of objects that holds numbers only is not distinguished from a numeric
      column; \<^verbatim>\<open>read_csv\<close> and \<^verbatim>\<open>to_numeric\<close> give none.)\<close>
  "dtype_of vs =
     (if list_ex is_str vs then Object
      else if vs \<noteq> [] \<and> list_all is_int vs then Int64
      else Float64)"

section \<open>Loading and preprocessing\<close>

abbreviation CHAVE_DE_ACESSO :: string where
  "CHAVE_DE_ACESSO \<equiv> ''CHAVE DE ACESSO''"
abbreviation FORNECEDOR :: string where
  "FORNECEDOR \<equiv> ''FORNECEDOR''"
abbreviation ITEM :: string where
  "ITEM \<equiv> ''ITEM''"
abbreviation QUANTIDADE :: string where
  "QUANTIDADE \<equiv> ''QUANTIDADE''"
abbreviation VALOR_TOTAL :: string where
  "VALOR_TOTAL \<equiv> ''VALOR TOTAL''"
abbreviation VALOR_NOTA_FISCAL :: string where
  "VALOR_NOTA_FISCAL \<equiv> ''VALOR NOTA FISCAL''"
abbreviation VALOR_UNITARIO :: string where
  \<comment> \<open>\<^verbatim>\<open>'VALOR UNIT\<close>A-acute\<^verbatim>\<open>RIO'\<close>\<close>
  "VALOR_UNITARIO \<equiv> ''VALOR UNIT'' @ [CHR 0xC1] @ ''RIO''"
abbreviation RAZAO_SOCIAL_EMITENTE :: string where
  \<comment> \<open>\<^verbatim>\<open>'RAZ\<close>A-tilde\<^verbatim>\<open>O SOCIAL EMITENTE'\<close>\<close>
  "RAZAO_SOCIAL_EMITENTE \<equiv> ''RAZ'' @ [CHR 0xC3] @ ''O SOCIAL EMITENTE''"
abbreviation DESCRICAO_DO_PRODUTO_SERVICO :: string where
  \<comment> \<open>\<^verbatim>\<open>'DESCRI\<close>C-cedilla A-tilde\<^verbatim>\<open>O DO PRODUTO/SERVI\<close>C-cedilla\<^verbatim>\<open>O'\<close>\<close>
  "DESCRICAO_DO_PRODUTO_SERVICO \<equiv>
     ''DESCRI'' @ [CHR 0xC7, CHR 0xC3] @ ''O DO PRODUTO/SERVI'' @ [CHR 0xC7] @ ''O''"
abbreviation Nao_especificado :: string where
  \<comment> \<open>\<^verbatim>\<open>'N\<close>a-tilde\<^verbatim>\<open>o especificado'\<close>\<close>
  "Nao_especificado \<equiv> ''N'' @ [CHR 0xE3] @ ''o especificado''"

definition normalize_labels :: "dataframe \<Rightarrow> dataframe" where
  \<comment> \<open>\<^verbatim>\<open>df.columns = [str(col).strip().upper() for col in df.columns]\<close>\<close>
  "normalize_labels df =
     df\<lparr>cols := map (\<lambda>col. (py_upper (py_strip (fst col)), snd col)) (cols df)\<rparr>"

definition rename :: "string \<Rightarrow> string \<Rightarrow> dataframe \<Rightarrow> dataframe" where
  \<comment> \<open>\<^verbatim>\<open>df.rename(columns={old: new}, inplace=True)\<close>\<close>
  "rename old new df =
     df\<lparr>cols := map (\<lambda>col. (if fst col = old then new else fst col, snd col)) (cols df)\<rparr>"

definition coerce_series ::
    "(rat \<Rightarrow> string) \<Rightarrow> (string list \<Rightarrow> series) \<Rightarrow> series \<Rightarrow> series" where
  \<comment> \<open>\<^verbatim>\<open>pd.to_numeric(s.astype(str).str.replace(',', '.', regex=False), errors='coerce')\<close>;
      \<open>to_numeric\<close> is \<^verbatim>\<open>pd.to_numeric(..., errors='coerce')\<close> on a column of texts\<close>
  "coerce_series float_repr to_numeric vs =
     to_numeric (map (\<lambda>c. str_replace_comma (astype_str float_repr c)) vs)"

fun coerce_columns ::
    "(rat \<Rightarrow> string) \<Rightarrow> (string list \<Rightarrow> series) \<Rightarrow> string list \<Rightarrow> dataframe \<Rightarrow>
     py_error + dataframe" where
  \<comment> \<open>the loop \<^verbatim>\<open>for col in [...]: if col in df.columns: df[col] = pd.to_numeric(...)\<close>.
      When the label names several columns, \<^verbatim>\<open>df[col].astype(str)\<close> is a DataFrame and
      its \<^verbatim>\<open>.str\<close> raises \<^verbatim>\<open>AttributeError\<close>.\<close>
  "coerce_columns float_repr to_numeric [] df = Inr df"
| "coerce_columns float_repr to_numeric (col # rest) df =
     (if col \<in> set (columns df)
      then (if length (labelled df col) = 1
            then coerce_columns float_repr to_numeric rest
                   (assign_column col (coerce_series float_repr to_numeric) df)
            else Inl AttributeError)
      else coerce_columns float_repr to_numeric rest df)"

definition drop_columns :: "string list \<Rightarrow> dataframe \<Rightarrow> dataframe" where
  \<comment> \<open>\<^verbatim>\<open>df.drop(columns=..., errors='ignore')\<close>: a new frame, the argument is not changed\<close>
  "drop_columns remove df = df\<lparr>cols := filter (\<lambda>col. fst col \<notin> set remove) (cols df)\<rparr>"

definition inner_join_indexers :: "cell list \<Rightarrow> cell list \<Rightarrow> (nat \<times> nat) list" where
  \<comment> \<open>the pairs (left position, right position) with equal keys, in the order of the left
      keys and, for one left row, of the right keys\<close>
  "inner_join_indexers lk rk =
     concat (map (\<lambda>l. map (\<lambda>r. (fst l, fst r)) (filter (\<lambda>r. snd l = snd r) (enumerate 0 rk)))
               (enumerate 0 lk))"

definition merge_inner :: "dataframe \<Rightarrow> dataframe \<Rightarrow> string \<Rightarrow> py_error + dataframe" where
  \<comment> \<open>\<^verbatim>\<open>pd.merge(left, right, on=key, how='inner')\<close> for frames whose only common label is
      the key (the caller drops the others from the right frame first): the left columns,
      then the right columns without the key. A key label that is absent raises
      \<^verbatim>\<open>KeyError\<close>, one that names several columns \<^verbatim>\<open>ValueError\<close>.\<close>
  "merge_inner left right key =
     (case (labelled left key, labelled right key) of
        ([lk], [rk]) \<Rightarrow>
          (let ix = inner_join_indexers lk rk
           in Inr \<lparr>cols = map (\<lambda>col. (fst col, take_rows (map fst ix) (snd col))) (cols left) @
                          map (\<lambda>col. (fst col, take_rows (map snd ix) (snd col)))
                            (filter (\<lambda>col. fst col \<noteq> key) (cols right)),
                   nrows = length ix\<rparr>)
      | ([], _) \<Rightarrow> Inl KeyError
      | (_, []) \<Rightarrow> Inl KeyError
      | _ \<Rightarrow> Inl ValueError)"

definition fill_cell :: "cell \<Rightarrow> cell \<Rightarrow> cell" where
  "fill_cell v c = (if c = NaN then v else c)"

definition fillna_dict :: "(string \<times> cell) list \<Rightarrow> dataframe \<Rightarrow> dataframe" where
  \<comment> \<open>\<^verbatim>\<open>df.fillna({label: value, ...}, inplace=True)\<close>: only the columns named in the
      dictionary are filled; a label of the dictionary that is no column is ignored\<close>
  "fillna_dict d df =
     df\<lparr>cols := map (\<lambda>col. case map_of d (fst col) of
                                None \<Rightarrow> col
                              | Some v \<Rightarrow> (fst col, map (fill_cell v) (snd col))) (cols df)\<rparr>"

definition zero_of :: "series \<Rightarrow> cell" where
  \<comment> \<open>what \<^verbatim>\<open>fillna(0)\<close> writes into a column: the integer 0 into a column of objects, the
      float 0.0 into a \<^verbatim>\<open>float64\<close> column\<close>
  "zero_of vs = (if dtype_of vs = Object then Intg 0 else Flt 0)"

definition fillna_zero :: "dataframe \<Rightarrow> dataframe" where
  \<comment> \<open>\<^verbatim>\<open>df.fillna(0, inplace=True)\<close>\<close>
  "fillna_zero df =
     df\<lparr>cols := map (\<lambda>col. (fst col, map (fill_cell (zero_of (snd col))) (snd col))) (cols df)\<rparr>"

text \<open>
  \<^verbatim>\<open>AgenteNotasFiscais._load_and_preprocess_data\<close>. The method works on the caller's two
  frames in place and stores its result in \<^verbatim>\<open>self.df_consolidado\<close>, so the model returns
  the two frames as the call leaves them together with the consolidated frame. The three
  ways the method returns are the three outcomes; an exception that escapes is \<open>Inl\<close> (the
  state of the frames at that point is not tracked). The two arguments are distinct
  objects, as in the only caller.
\<close>

datatype load_outcome =
    InputMissing
  | JoinKeyMissing dataframe dataframe
  | Consolidated dataframe dataframe dataframe

definition load_and_preprocess_data ::
    "(rat \<Rightarrow> string) \<Rightarrow> (string list \<Rightarrow> series) \<Rightarrow> dataframe option \<Rightarrow> dataframe option \<Rightarrow>
     py_error + load_outcome" where
  "load_and_preprocess_data float_repr to_numeric df_cabecalho df_itens =
     (case (df_cabecalho, df_itens) of
        (Some cab0, Some itens0) \<Rightarrow>
          (let cab1 = rename RAZAO_SOCIAL_EMITENTE FORNECEDOR (normalize_labels cab0);
               itens1 = rename DESCRICAO_DO_PRODUTO_SERVICO ITEM (normalize_labels itens0)
           in case coerce_columns float_repr to_numeric [VALOR_NOTA_FISCAL] cab1 of
                Inl e \<Rightarrow> Inl e
              | Inr cab2 \<Rightarrow>
                  (case coerce_columns float_repr to_numeric
                          [QUANTIDADE, VALOR_UNITARIO, VALOR_TOTAL] itens1 of
                     Inl e \<Rightarrow> Inl e
                   | Inr itens2 \<Rightarrow>
                       if CHAVE_DE_ACESSO \<notin> set (columns cab2) \<or>
                          CHAVE_DE_ACESSO \<notin> set (columns itens2)
                       then Inr (JoinKeyMissing cab2 itens2)
                       else
                         (let cab3 = assign_column CHAVE_DE_ACESSO
                                       (map (\<lambda>c. Str (astype_str float_repr c))) cab2;
                              itens3 = assign_column CHAVE_DE_ACESSO
                                         (map (\<lambda>c. Str (astype_str float_repr c))) itens2;
                              cols_para_remover =
                                filter (\<lambda>col. col \<in> set (columns cab3) \<and> col \<noteq> CHAVE_DE_ACESSO)
                                  (columns itens3);
                              df_itens_clean = drop_columns cols_para_remover itens3
                          in case merge_inner cab3 df_itens_clean CHAVE_DE_ACESSO of
                               Inl e \<Rightarrow> Inl e
                             | Inr merged \<Rightarrow>
                                 Inr (Consolidated cab3 itens3
                                        (fillna_zero
                                           (fillna_dict [(ITEM, Str Nao_especificado),
                                                         (FORNECEDOR, Str Nao_especificado)]
                                              merged))))))
      | _ \<Rightarrow> Inr InputMissing)"


section \<open>The analysis tools\<close>

text \<open>
  The tools read the module-level \<^verbatim>\<open>data_repo.df\<close>; in the model it is an argument. Each
  returns a JSON text; the model returns the value that is serialised (\<^verbatim>\<open>json.dumps\<close>,
  \<^verbatim>\<open>to_json\<close> and the \<^verbatim>\<open>:,.2f\<close> formatting of numbers are not modelled), or \<open>Inl\<close> when an
  exception escapes the tool.
\<close>

datatype tool_result =
    Erro string
  | Valor_total_gasto cell
  | Item_extremo cell cell cell string
  | Series_json "(cell \<times> cell) list"
  | Contagem nat

abbreviation msg_vazio_ou_nao_carregado :: string where
  \<comment> \<open>\<^verbatim>\<open>"DataFrame vazio ou n\<close>a-tilde\<^verbatim>\<open>o carregado."\<close>\<close>
  "msg_vazio_ou_nao_carregado \<equiv> ''DataFrame vazio ou n'' @ [CHR 0xE3] @ ''o carregado.''"

abbreviation msg_vazio :: string where
  "msg_vazio \<equiv> ''DataFrame vazio.''"

abbreviation msg_n_invalido_prefixo :: string where
  \<comment> \<open>\<^verbatim>\<open>"O par\<close>a-circumflex\<^verbatim>\<open>metro 'n' para a contagem deve ser um n\<close>u-acute\<^verbatim>\<open>mero inteiro.
      Recebido: "\<close>\<close>
  "msg_n_invalido_prefixo \<equiv>
     ''O par'' @ [CHR 0xE2] @ ''metro '' @ [CHR 0x27] @ ''n'' @ [CHR 0x27] @
     '' para a contagem deve ser um n'' @ [CHR 0xFA] @ ''mero inteiro. Recebido: ''"

definition msg_n_invalido :: "string \<Rightarrow> string" where
  \<comment> \<open>the f-string: the text above followed by the text of \<^verbatim>\<open>{n}\<close>\<close>
  "msg_n_invalido t = msg_n_invalido_prefixo @ t"

abbreviation msg_metrica_invalida :: string where
  \<comment> \<open>\<^verbatim>\<open>"M\<close>e-acute\<^verbatim>\<open>trica inv\<close>a-acute\<^verbatim>\<open>lida. Use 'quantidade' ou 'valor'."\<close>\<close>
  "msg_metrica_invalida \<equiv>
     ''M'' @ [CHR 0xE9] @ ''trica inv'' @ [CHR 0xE1] @ ''lida. Use '' @ [CHR 0x27] @
     ''quantidade'' @ [CHR 0x27] @ '' ou '' @ [CHR 0x27] @ ''valor'' @ [CHR 0x27] @ ''.''"

definition msg_nenhum_fornecedor :: "string \<Rightarrow> string" where
  \<comment> \<open>\<^verbatim>\<open>f"Nenhum fornecedor encontrado com o nome '{fornecedor}'."\<close>\<close>
  "msg_nenhum_fornecedor fornecedor =
     ''Nenhum fornecedor encontrado com o nome '' @ [CHR 0x27] @ fornecedor @ [CHR 0x27] @ ''.''"

abbreviation msg_contar_invalido :: string where
  \<comment> \<open>\<^verbatim>\<open>"Par\<close>a-circumflex\<^verbatim>\<open>metro 'contar_o_que' inv\<close>a-acute\<^verbatim>\<open>lido. Use 'notas' ou 'itens'."\<close>\<close>
  "msg_contar_invalido \<equiv>
     ''Par'' @ [CHR 0xE2] @ ''metro '' @ [CHR 0x27] @ ''contar_o_que'' @ [CHR 0x27] @
     '' inv'' @ [CHR 0xE1] @ ''lido. Use '' @ [CHR 0x27] @ ''notas'' @ [CHR 0x27] @ '' ou '' @
     [CHR 0x27] @ ''itens'' @ [CHR 0x27] @ ''.''"

subsection \<open>Numbers in a column\<close>

definition wrap64 :: "int \<Rightarrow> int" where
  \<comment> \<open>\<^verbatim>\<open>int64\<close> arithmetic wraps around\<close>
  "wrap64 i = (i + 2 ^ 63) mod 2 ^ 64 - 2 ^ 63"

definition int_of_cell :: "cell \<Rightarrow> int" where
  "int_of_cell c = (case c of Intg i \<Rightarrow> i | _ \<Rightarrow> 0)"

definition num_key :: "cell \<Rightarrow> int \<times> rat" where
  \<comment> \<open>the place of a number in the order of numbers: minus infinity, the finite numbers by
      value, plus infinity; \<^verbatim>\<open>NaN\<close> sorts last\<close>
  "num_key c =
     (case c of
        NInf \<Rightarrow> (- 1, 0)
      | Intg i \<Rightarrow> (0, of_int i)
      | Flt r \<Rightarrow> (0, r)
      | PInf \<Rightarrow> (1, 0)
      | _ \<Rightarrow> (2, 0))"

definition num_less :: "cell \<Rightarrow> cell \<Rightarrow> bool" where
  "num_less a b =
     (fst (num_key a) < fst (num_key b) \<or>
      (fst (num_key a) = fst (num_key b) \<and> snd (num_key a) < snd (num_key b)))"

definition num_le :: "cell \<Rightarrow> cell \<Rightarrow> bool" where
  "num_le a b = (\<not> num_less b a)"

subsection \<open>\<^verbatim>\<open>calcular_valor_total_gasto\<close>\<close>

definition getitem :: "dataframe \<Rightarrow> string \<Rightarrow> py_error + series" where
  \<comment> \<open>\<^verbatim>\<open>df[c]\<close> used as a Series. An absent label raises \<^verbatim>\<open>KeyError\<close>. A label that names
      several columns gives a DataFrame, on which what the callers do next fails with
      \<^verbatim>\<open>TypeError\<close>.\<close>
  "getitem df c =
     (case labelled df c of [] \<Rightarrow> Inl KeyError | [vs] \<Rightarrow> Inr vs | _ \<Rightarrow> Inl TypeError)"

definition calcular_valor_total_gasto ::
    "(series \<Rightarrow> cell) \<Rightarrow> dataframe \<Rightarrow> py_error + tool_result" where
  \<comment> \<open>\<open>nansum\<close> is \<^verbatim>\<open>Series.sum()\<close> of a \<^verbatim>\<open>float64\<close> column, applied to the cells that are
      not missing. An \<^verbatim>\<open>int64\<close> column is summed exactly. In a column of objects the sum
      of texts is their concatenation, which \<^verbatim>\<open>:,.2f\<close> refuses with \<^verbatim>\<open>ValueError\<close>; a
      text and a number cannot be added (\<^verbatim>\<open>TypeError\<close>).\<close>
  "calcular_valor_total_gasto nansum df =
     (if df_empty df then Inr (Erro msg_vazio_ou_nao_carregado)
      else case getitem df VALOR_TOTAL of
             Inl e \<Rightarrow> Inl e
           | Inr vs \<Rightarrow>
               (case dtype_of vs of
                  Int64 \<Rightarrow> Inr (Valor_total_gasto (Intg (wrap64 (sum_list (map int_of_cell vs)))))
                | Float64 \<Rightarrow> Inr (Valor_total_gasto (nansum (filter (\<lambda>c. c \<noteq> NaN) vs)))
                | Object \<Rightarrow> Inl (if list_all is_str vs then ValueError else TypeError)))"

subsection \<open>\<^verbatim>\<open>encontrar_item_mais_caro_ou_barato\<close>\<close>

fun arg_first :: "(cell \<Rightarrow> cell \<Rightarrow> bool) \<Rightarrow> nat \<Rightarrow> nat \<times> cell \<Rightarrow> series \<Rightarrow> nat \<times> cell" where
  \<comment> \<open>one pass over the values from position \<open>i\<close>: the best value so far and its position
      are replaced only by a strictly better value\<close>
  "arg_first better i best [] = best"
| "arg_first better i best (x # xs) =
     arg_first better (Suc i) (if better x (snd best) then (i, x) else best) xs"

definition argmax :: "series \<Rightarrow> nat" where
  \<comment> \<open>\<^verbatim>\<open>numpy.argmax\<close>: the first position of a greatest value (of a non-empty array)\<close>
  "argmax xs = fst (arg_first (\<lambda>x b. num_less b x) 1 (0, hd xs) (tl xs))"

definition argmin :: "series \<Rightarrow> nat" where
  "argmin xs = fst (arg_first (\<lambda>x b. num_less x b) 1 (0, hd xs) (tl xs))"

definition idxmax :: "series \<Rightarrow> py_error + nat" where
  \<comment> \<open>\<^verbatim>\<open>Series.idxmax()\<close>, with what \<^verbatim>\<open>df.loc[idx]\<close> then does. A column of objects is
      refused (\<^verbatim>\<open>TypeError\<close>). Missing values count as minus infinity. When every value
      is missing the label is \<^verbatim>\<open>nan\<close>, which \<^verbatim>\<open>df.loc\<close> does not find (\<^verbatim>\<open>KeyError\<close>); an
      empty column raises \<^verbatim>\<open>ValueError\<close>.\<close>
  "idxmax vs =
     (if vs = [] then Inl ValueError
      else if dtype_of vs = Object then Inl TypeError
      else if list_all (\<lambda>c. c = NaN) vs then Inl KeyError
      else Inr (argmax (map (\<lambda>c. if c = NaN then NInf else c) vs)))"

definition idxmin :: "series \<Rightarrow> py_error + nat" where
  \<comment> \<open>missing values count as plus infinity\<close>
  "idxmin vs =
     (if vs = [] then Inl ValueError
      else if dtype_of vs = Object then Inl TypeError
      else if list_all (\<lambda>c. c = NaN) vs then Inl KeyError
      else Inr (argmin (map (\<lambda>c. if c = NaN then PInf else c) vs)))"

definition encontrar_item_mais_caro_ou_barato ::
    "dataframe \<Rightarrow> string \<Rightarrow> py_error + tool_result" where
  \<comment> \<open>\<^verbatim>\<open>json.dumps\<close> refuses an element of an \<^verbatim>\<open>int64\<close> column (\<^verbatim>\<open>TypeError\<close>), and a label
      that names several columns gives it a Series, which it refuses as well\<close>
  "encontrar_item_mais_caro_ou_barato df ordenacao =
     (if df_empty df then Inr (Erro msg_vazio)
      else case getitem df VALOR_UNITARIO of
             Inl e \<Rightarrow> Inl e
           | Inr vs \<Rightarrow>
               (case (if ordenacao = ''caro'' then (idxmax vs, ''mais caro'')
                      else (idxmin vs, ''mais barato'')) of
                  (Inl e, desc) \<Rightarrow> Inl e
                | (Inr idx, desc) \<Rightarrow>
                    (case getitem df ITEM of
                       Inl e \<Rightarrow> Inl e
                     | Inr itens \<Rightarrow>
                         (case getitem df FORNECEDOR of
                            Inl e \<Rightarrow> Inl e
                          | Inr fornecedores \<Rightarrow>
                              if dtype_of itens = Int64 \<or> dtype_of fornecedores = Int64
                              then Inl TypeError
                              else Inr (Item_extremo (itens ! idx) (fornecedores ! idx)
                                          (vs ! idx) desc)))))"

subsection \<open>The two top-n tools\<close>

fun str_le :: "string \<Rightarrow> string \<Rightarrow> bool" where
  \<comment> \<open>the order of Python strings: code point by code point\<close>
  "str_le [] ys = True"
| "str_le (x # xs) [] = False"
| "str_le (x # xs) (y # ys) =
     ((of_char x :: nat) < of_char y \<or> (x = y \<and> str_le xs ys))"

definition key_le :: "cell \<Rightarrow> cell \<Rightarrow> bool" where
  \<comment> \<open>the order in which \<^verbatim>\<open>groupby\<close> sorts its keys: numbers before texts\<close>
  "key_le a b =
     (case (a, b) of
        (Str s, Str t) \<Rightarrow> str_le s t
      | (Str s, _) \<Rightarrow> False
      | (_, Str t) \<Rightarrow> True
      | _ \<Rightarrow> num_le a b)"

fun insert_key :: "cell \<Rightarrow> cell list \<Rightarrow> cell list" where
  "insert_key k [] = [k]"
| "insert_key k (y # ys) = (if key_le k y then k # y # ys else y # insert_key k ys)"

definition group_keys :: "series \<Rightarrow> cell list" where
  \<comment> \<open>the distinct keys of \<^verbatim>\<open>groupby\<close>, sorted; rows with a missing key form no group\<close>
  "group_keys ks = foldr insert_key (remdups (filter (\<lambda>k. k \<noteq> NaN) ks)) []"

definition group_values :: "series \<Rightarrow> series \<Rightarrow> cell \<Rightarrow> series" where
  \<comment> \<open>the values in the rows whose key is \<open>k\<close>, in the order of the rows\<close>
  "group_values ks vs k = map snd (filter (\<lambda>row. fst row = k) (zip ks vs))"

definition groupby_sum ::
    "(series \<Rightarrow> cell) \<Rightarrow> dataframe \<Rightarrow> string \<Rightarrow> string \<Rightarrow> py_error + (cell \<times> cell) list" where
  \<comment> \<open>\<^verbatim>\<open>df.groupby(by)[col].sum()\<close>, with what \<^verbatim>\<open>nlargest\<close> and \<^verbatim>\<open>nsmallest\<close> refuse. \<open>gsum\<close>
      is the sum of one group of a \<^verbatim>\<open>float64\<close> column, applied to the cells of the group
      that are not missing; an \<^verbatim>\<open>int64\<close> column is summed exactly. A grouping label that
      names several columns raises \<^verbatim>\<open>ValueError\<close>; the sums of a column of objects, or of
      several columns, are refused by \<^verbatim>\<open>nlargest\<close> and \<^verbatim>\<open>nsmallest\<close> (\<^verbatim>\<open>TypeError\<close>).\<close>
  "groupby_sum gsum df by col =
     (case labelled df by of
        [] \<Rightarrow> Inl KeyError
      | [ks] \<Rightarrow>
          (case labelled df col of
             [] \<Rightarrow> Inl KeyError
           | [vs] \<Rightarrow>
               (case dtype_of vs of
                  Object \<Rightarrow> Inl TypeError
                | Int64 \<Rightarrow>
                    Inr (map (\<lambda>k. (k, Intg (wrap64 (sum_list (map int_of_cell (group_values ks vs k))))))
                           (group_keys ks))
                | Float64 \<Rightarrow>
                    Inr (map (\<lambda>k. (k, gsum (filter (\<lambda>c. c \<noteq> NaN) (group_values ks vs k))))
                           (group_keys ks)))
           | _ \<Rightarrow> Inl TypeError)
      | _ \<Rightarrow> Inl ValueError)"

fun insert_stable :: "('a \<Rightarrow> cell) \<Rightarrow> 'a \<Rightarrow> 'a list \<Rightarrow> 'a list" where
  "insert_stable key x [] = [x]"
| "insert_stable key x (y # ys) =
     (if num_less (key y) (key x) then y # insert_stable key x ys else x # y # ys)"

definition mergesort_by :: "('a \<Rightarrow> cell) \<Rightarrow> 'a list \<Rightarrow> 'a list" where
  \<comment> \<open>a stable sort by ascending key (\<^verbatim>\<open>argsort(kind='mergesort')\<close>): entries of equal key
      keep their order\<close>
  "mergesort_by key xs = foldr (insert_stable key) xs []"

definition negated :: "cell \<Rightarrow> cell" where
  \<comment> \<open>the key by which \<^verbatim>\<open>nlargest\<close> sorts: \<^verbatim>\<open>-arr\<close> for floats, \<^verbatim>\<open>-arr - 1\<close> for integers\<close>
  "negated c =
     (case c of
        Intg i \<Rightarrow> Intg (- i - 1)
      | Flt r \<Rightarrow> Flt (- r)
      | PInf \<Rightarrow> NInf
      | NInf \<Rightarrow> PInf
      | _ \<Rightarrow> c)"

definition sort_values ::
    "(series \<Rightarrow> nat list) \<Rightarrow> bool \<Rightarrow> (cell \<times> cell) list \<Rightarrow> (cell \<times> cell) list" where
  \<comment> \<open>\<^verbatim>\<open>Series.sort_values(ascending=...)\<close> with its default \<^verbatim>\<open>kind='quicksort'\<close>: the entries
      that are not missing in the order \<open>argsort\<close> gives (for a descending sort the entries
      are reversed before and after), then the missing ones. \<open>argsort\<close> is
      \<^verbatim>\<open>numpy.argsort\<close>, which is not a stable sort: it is a parameter.\<close>
  "sort_values argsort ascending g =
     (let present = filter (\<lambda>p. snd p \<noteq> NaN) g;
          missing = filter (\<lambda>p. snd p = NaN) g
      in (if ascending
          then map (\<lambda>i. present ! i) (argsort (map snd present))
          else rev (map (\<lambda>i. rev present ! i) (argsort (map snd (rev present))))) @ missing)"

definition select_n ::
    "(series \<Rightarrow> nat list) \<Rightarrow> bool \<Rightarrow> int \<Rightarrow> (cell \<times> cell) list \<Rightarrow> (cell \<times> cell) list" where
  \<comment> \<open>\<^verbatim>\<open>Series.nlargest(n)\<close> (\<open>largest\<close>) and \<^verbatim>\<open>Series.nsmallest(n)\<close> with \<^verbatim>\<open>keep='first'\<close>:
      nothing for \<open>n \<le> 0\<close>; the whole series sorted when \<open>n\<close> reaches its length;
      otherwise the first \<open>n\<close> of a stable sort, missing values last\<close>
  "select_n argsort largest n g =
     (if n \<le> 0 then []
      else if length g \<le> nat n then take (nat n) (sort_values argsort (\<not> largest) g)
      else take (nat n)
             (mergesort_by (\<lambda>p. if largest then negated (snd p) else snd p)
                (filter (\<lambda>p. snd p \<noteq> NaN) g) @
              filter (\<lambda>p. snd p = NaN) g))"

definition nlargest ::
    "(series \<Rightarrow> nat list) \<Rightarrow> int \<Rightarrow> (cell \<times> cell) list \<Rightarrow> (cell \<times> cell) list" where
  "nlargest argsort n g = select_n argsort True n g"

definition nsmallest ::
    "(series \<Rightarrow> nat list) \<Rightarrow> int \<Rightarrow> (cell \<times> cell) list \<Rightarrow> (cell \<times> cell) list" where
  "nsmallest argsort n g = select_n argsort False n g"

definition obter_top_n_itens_por ::
    "(series \<Rightarrow> cell) \<Rightarrow> (series \<Rightarrow> nat list) \<Rightarrow> dataframe \<Rightarrow> string \<Rightarrow> pyval \<Rightarrow> string \<Rightarrow>
     py_error + tool_result" where
  "obter_top_n_itens_por gsum argsort df metrica n ordem =
     (case int_n n of
        Rejected t \<Rightarrow> Inr (Erro (msg_n_invalido t))
      | Raised e \<Rightarrow> Inl e
      | Converted n' \<Rightarrow>
          if df_empty df then Inr (Erro msg_vazio)
          else if metrica = ''quantidade'' \<or> metrica = ''valor''
          then (case groupby_sum gsum df ITEM
                       (if metrica = ''quantidade'' then QUANTIDADE else VALOR_TOTAL) of
                  Inl e \<Rightarrow> Inl e
                | Inr agrupado \<Rightarrow>
                    Inr (Series_json (if ordem = ''maior'' then nlargest argsort n' agrupado
                                      else nsmallest argsort n' agrupado)))
          else Inr (Erro msg_metrica_invalida))"

definition obter_top_n_fornecedores_por_valor ::
    "(series \<Rightarrow> cell) \<Rightarrow> (series \<Rightarrow> nat list) \<Rightarrow> dataframe \<Rightarrow> pyval \<Rightarrow> string \<Rightarrow>
     py_error + tool_result" where
  "obter_top_n_fornecedores_por_valor gsum argsort df n ordem =
     (case int_n n of
        Rejected t \<Rightarrow> Inr (Erro (msg_n_invalido t))
      | Raised e \<Rightarrow> Inl e
      | Converted n' \<Rightarrow>
          if df_empty df then Inr (Erro msg_vazio)
          else (case groupby_sum gsum df FORNECEDOR VALOR_NOTA_FISCAL of
                  Inl e \<Rightarrow> Inl e
                | Inr agrupado \<Rightarrow>
                    Inr (Series_json (if ordem = ''maior'' then nlargest argsort n' agrupado
                                      else nsmallest argsort n' agrupado))))"

subsection \<open>\<^verbatim>\<open>contar_notas_ou_itens\<close>\<close>

text \<open>
  \<^verbatim>\<open>Series.str.contains(pat, case=False, na=False)\<close> compiles \<open>pat\<close> as a regular expression
  (\<^verbatim>\<open>re.compile(pat, flags=re.IGNORECASE)\<close>) and keeps the rows in which \<^verbatim>\<open>search\<close> finds a
  match. The model interprets the patterns built from characters that stand for
  themselves, the period, a backslash before a character that is no ASCII letter or digit,
  and the greedy repetitions \<^verbatim>\<open>*\<close>, \<^verbatim>\<open>+\<close> and \<^verbatim>\<open>?\<close> of one such atom. Every other pattern (sets,
  groups, alternatives, anchors, counted or lazy repetitions, character classes, a
  pattern that \<^verbatim>\<open>re\<close> refuses) is left to the parameter \<open>other\<close>: \<open>other pat\<close> is \<open>None\<close> when
  \<^verbatim>\<open>re.compile\<close> raises \<^verbatim>\<open>re.error\<close>, and the search predicate otherwise.
\<close>

type_synonym regex_engine = "string \<Rightarrow> (string \<Rightarrow> bool) option"

datatype atom = Lit char | AnyChar

datatype repeat = Once | Opt | Star | Plus

definition is_special :: "char \<Rightarrow> bool" where
  \<comment> \<open>the characters with a meaning of their own in a pattern\<close>
  "is_special c = (c \<in> set (''.^$*+?{}[]|()'' @ [CHR 0x5C]))"

definition is_ascii_alnum :: "char \<Rightarrow> bool" where
  "is_ascii_alnum c =
     (let n = (of_char c :: nat)
      in (48 \<le> n \<and> n \<le> 57) \<or> (65 \<le> n \<and> n \<le> 90) \<or> (97 \<le> n \<and> n \<le> 122))"

fun parse_atom :: "string \<Rightarrow> (atom \<times> string) option" where
  "parse_atom [] = None"
| "parse_atom (c # r) =
     (if c = CHR 0x5C
      then (case r of
              [] \<Rightarrow> None
            | d # r' \<Rightarrow> if is_ascii_alnum d then None else Some (Lit d, r'))
      else if c = CHR ''.'' then Some (AnyChar, r)
      else if is_special c then None
      else Some (Lit c, r))"

definition is_repeat :: "char \<Rightarrow> bool" where
  "is_repeat c = (c = CHR ''*'' \<or> c = CHR ''+'' \<or> c = CHR ''?'')"

definition parse_repeat :: "string \<Rightarrow> (repeat \<times> string) option" where
  \<comment> \<open>the repetition after an atom; a repetition followed by another repetition character
      or by a brace is not interpreted\<close>
  "parse_repeat s =
     (case s of
        [] \<Rightarrow> Some (Once, [])
      | q # r \<Rightarrow>
          if is_repeat q
          then (case r of
                  [] \<Rightarrow> Some (if q = CHR ''*'' then Star else if q = CHR ''+'' then Plus else Opt, [])
                | x # r' \<Rightarrow>
                    if is_repeat x \<or> x = CHR ''{'' then None
                    else Some (if q = CHR ''*'' then Star else if q = CHR ''+'' then Plus else Opt,
                               r))
          else Some (Once, s))"

function parse_pattern :: "string \<Rightarrow> (atom \<times> repeat) list option" where
  "parse_pattern s =
     (if s = [] then Some []
      else case parse_atom s of
             None \<Rightarrow> None
           | Some (a, r) \<Rightarrow>
               (case parse_repeat r of
                  None \<Rightarrow> None
                | Some (q, r') \<Rightarrow>
                    if length r' < length s
                    then map_option ((#) (a, q)) (parse_pattern r')
                    else None))"
  by pat_completeness auto
termination by (relation "measure length") auto

declare parse_pattern.simps [simp del]

definition atom_matches :: "atom \<Rightarrow> char \<Rightarrow> bool" where
  \<comment> \<open>with \<^verbatim>\<open>re.IGNORECASE\<close> a character stands for both of its cases; the period matches
      every character but the line feed\<close>
  "atom_matches a c =
     (case a of Lit l \<Rightarrow> lower_char l = lower_char c | AnyChar \<Rightarrow> c \<noteq> CHR 0x0A)"

function match_here :: "(atom \<times> repeat) list \<Rightarrow> string \<Rightarrow> bool" where
  \<comment> \<open>does a match of the items start at the head of the text?\<close>
  "match_here [] s = True"
| "match_here ((a, Once) # r) [] = False"
| "match_here ((a, Once) # r) (c # s) = (atom_matches a c \<and> match_here r s)"
| "match_here ((a, Opt) # r) [] = match_here r []"
| "match_here ((a, Opt) # r) (c # s) =
     ((atom_matches a c \<and> match_here r s) \<or> match_here r (c # s))"
| "match_here ((a, Star) # r) [] = match_here r []"
| "match_here ((a, Star) # r) (c # s) =
     (match_here r (c # s) \<or> (atom_matches a c \<and> match_here ((a, Star) # r) s))"
| "match_here ((a, Plus) # r) [] = False"
| "match_here ((a, Plus) # r) (c # s) = (atom_matches a c \<and> match_here ((a, Star) # r) s)"
  by pat_completeness auto
termination by (relation "measure (\<lambda>(items, s). 2 * length s + length items)") auto

fun re_search :: "(atom \<times> repeat) list \<Rightarrow> string \<Rightarrow> bool" where
  \<comment> \<open>\<^verbatim>\<open>pattern.search(text) is not None\<close>\<close>
  "re_search items [] = match_here items []"
| "re_search items (c # s) = (match_here items (c # s) \<or> re_search items s)"

definition re_compile :: "regex_engine \<Rightarrow> regex_engine" where
  \<comment> \<open>\<^verbatim>\<open>re.compile(pat, flags=re.IGNORECASE).search\<close>\<close>
  "re_compile other pat =
     (case parse_pattern pat of Some items \<Rightarrow> Some (re_search items) | None \<Rightarrow> other pat)"



definition str_contains :: "regex_engine \<Rightarrow> series \<Rightarrow> string \<Rightarrow> py_error + bool list" where
  \<comment> \<open>the boolean mask of \<^verbatim>\<open>.str.contains(pat, case=False, na=False)\<close>. A column without
      any text has a numeric dtype, whose \<^verbatim>\<open>.str\<close> raises \<^verbatim>\<open>AttributeError\<close>; in a column of
      objects a cell that is no text gives \<open>False\<close> (\<^verbatim>\<open>na=False\<close>).\<close>
  "str_contains other vs pat =
     (if dtype_of vs \<noteq> Object then Inl AttributeError
      else case re_compile other pat of
             None \<Rightarrow> Inl RegexError
           | Some search \<Rightarrow> Inr (map (\<lambda>c. case c of Str s \<Rightarrow> search s | _ \<Rightarrow> False) vs))"

definition boolean_index :: "bool list \<Rightarrow> dataframe \<Rightarrow> dataframe" where
  \<comment> \<open>\<^verbatim>\<open>df[mask]\<close>: the rows where the mask holds\<close>
  "boolean_index msk df =
     \<lparr>cols = map (\<lambda>col. (fst col, map snd (filter fst (zip msk (snd col))))) (cols df),
      nrows = length (filter (\<lambda>b. b) msk)\<rparr>"

definition nunique :: "series \<Rightarrow> nat" where
  \<comment> \<open>\<^verbatim>\<open>Series.nunique()\<close>: the distinct values, missing ones not counted\<close>
  "nunique vs = length (remdups (filter (\<lambda>c. c \<noteq> NaN) vs))"

definition contar :: "dataframe \<Rightarrow> string \<Rightarrow> py_error + tool_result" where
  \<comment> \<open>lines 162 to 169 of the source: the count over \<open>df_filtrado\<close>\<close>
  "contar df_filtrado contar_o_que =
     (if contar_o_que = ''notas''
      then (case getitem df_filtrado CHAVE_DE_ACESSO of
              Inl e \<Rightarrow> Inl e
            | Inr vs \<Rightarrow> Inr (Contagem (nunique vs)))
      else if contar_o_que = ''itens'' then Inr (Contagem (nrows df_filtrado))
      else Inr (Erro msg_contar_invalido))"

definition contar_notas_ou_itens ::
    "regex_engine \<Rightarrow> dataframe \<Rightarrow> string \<Rightarrow> string option \<Rightarrow> py_error + tool_result" where
  \<comment> \<open>\<^verbatim>\<open>if fornecedor:\<close> is false for \<^verbatim>\<open>None\<close> and for the empty string. A \<^verbatim>\<open>FORNECEDOR\<close>
      label that names several columns gives a DataFrame, which has no \<^verbatim>\<open>.str\<close>.\<close>
  "contar_notas_ou_itens other df contar_o_que fornecedor =
     (if df_empty df then Inr (Erro msg_vazio)
      else case fornecedor of
             None \<Rightarrow> contar df contar_o_que
           | Some f \<Rightarrow>
               if f = [] then contar df contar_o_que
               else (case labelled df FORNECEDOR of
                       [] \<Rightarrow> Inl KeyError
                     | [vs] \<Rightarrow>
                         (case str_contains other vs f of
                            Inl e \<Rightarrow> Inl e
                          | Inr msk \<Rightarrow>
                              (let df_filtrado = boolean_index msk df
                               in if df_empty df_filtrado
                                  then Inr (Erro (msg_nenhum_fornecedor f))
                                  else contar df_filtrado contar_o_que))
                     | _ \<Rightarrow> Inl AttributeError))"

section \<open>Example tables\<close>

definition tabela_exemplo :: dataframe where
  \<comment> \<open>a consolidated table of four item rows: items A, B, C, D with totals 100, 50, 200
      and 75; the unit value 200 occurs in rows 0 and 2, the unit value 25 in rows 1 and 3\<close>
  "tabela_exemplo =
     \<lparr>cols =
        [(CHAVE_DE_ACESSO, [Str ''k1'', Str ''k1'', Str ''k2'', Str ''k3'']),
         (FORNECEDOR, [Str ''Acme Corp'', Str ''Acme Corp'', Str ''A+B Ltda'', Str ''Delta'']),
         (VALOR_NOTA_FISCAL, [Intg 150, Intg 150, Intg 200, Intg 75]),
         (ITEM, [Str ''A'', Str ''B'', Str ''C'', Str ''D'']),
         (QUANTIDADE, [Flt (1 / 2), Flt 2, Flt 1, Flt 3]),
         (VALOR_UNITARIO, [Flt 200, Flt 25, Flt 200, Flt 25]),
         (VALOR_TOTAL, [Intg 100, Intg 50, Intg 200, Intg 75])],
      nrows = 4\<rparr>"






definition cabecalho_repetido :: dataframe where
  \<comment> \<open>a header file in which the invoice k1 occurs twice\<close>
  "cabecalho_repetido =
     \<lparr>cols = [(CHAVE_DE_ACESSO, [Str ''k1'', Str ''k1'']),
              (FORNECEDOR, [Str ''Acme'', Str ''Acme''])],
      nrows = 2\<rparr>"

definition itens_um :: dataframe where
  \<comment> \<open>an item file with one item of invoice k1\<close>
  "itens_um =
     \<lparr>cols = [(CHAVE_DE_ACESSO, [Str ''k1'']), (ITEM, [Str ''A''])],
      nrows = 1\<rparr>"

definition consolidado_repetido :: dataframe where
  \<comment> \<open>the consolidated table of these two files\<close>
  "consolidado_repetido =
     \<lparr>cols = [(CHAVE_DE_ACESSO, [Str ''k1'', Str ''k1'']),
              (FORNECEDOR, [Str ''Acme'', Str ''Acme'']),
              (ITEM, [Str ''A'', Str ''A''])],
      nrows = 2\<rparr>"


section \<open>Evaluation on concrete tables\<close>

lemmas frame_defs =
  df_empty_def getitem_def labelled_def columns_def DataFrame_def

lemmas int_n_defs =
  int_n_def int_of_str_def int_strip_def int_isspace_def is_digit_def digits_val_def
  digit_val_def

section \<open>Parameter checks of the tools\<close>

text \<open>
  Claim C3, as amended. When the shared table is empty (in particular when nothing was
  loaded), \<^verbatim>\<open>calcular_valor_total_gasto\<close>, \<^verbatim>\<open>encontrar_item_mais_caro_ou_barato\<close> and
  \<^verbatim>\<open>contar_notas_ou_itens\<close> return the empty-table error whatever their other arguments.
  The two top-n tools convert \<open>n\<close> first: they return the empty-table error when \<open>n\<close>
  converts to an integer, the invalid-\<open>n\<close> error when \<^verbatim>\<open>int\<close> rejects \<open>n\<close> with \<^verbatim>\<open>ValueError\<close> or
  \<^verbatim>\<open>TypeError\<close>, and let every other exception of \<^verbatim>\<open>int\<close> escape.
\<close>

theorem empty_state_guard:
  "df_empty df \<longrightarrow>
     calcular_valor_total_gasto nansum df = Inr (Erro msg_vazio_ou_nao_carregado) \<and>
     encontrar_item_mais_caro_ou_barato df ordenacao = Inr (Erro msg_vazio) \<and>
     contar_notas_ou_itens other df contar_o_que fornecedor = Inr (Erro msg_vazio) \<and>
     obter_top_n_itens_por gsum argsort df metrica n ordem =
       (case int_n n of
          Rejected t \<Rightarrow> Inr (Erro (msg_n_invalido t))
        | Raised e \<Rightarrow> Inl e
        | Converted k \<Rightarrow> Inr (Erro msg_vazio)) \<and>
     obter_top_n_fornecedores_por_valor gsum argsort df n ordem =
       (case int_n n of
          Rejected t \<Rightarrow> Inr (Erro (msg_n_invalido t))
        | Raised e \<Rightarrow> Inl e
        | Converted k \<Rightarrow> Inr (Erro msg_vazio))"
  by (simp add: calcular_valor_total_gasto_def encontrar_item_mais_caro_ou_barato_def
      contar_notas_ou_itens_def obter_top_n_itens_por_def obter_top_n_fornecedores_por_valor_def
      split: conversion.splits)

theorem empty_state_guard_witness:
  "\<forall>nansum gsum argsort other.
     df_empty DataFrame \<and>
     calcular_valor_total_gasto nansum DataFrame = Inr (Erro msg_vazio_ou_nao_carregado) \<and>
     encontrar_item_mais_caro_ou_barato DataFrame ''xyz'' = Inr (Erro msg_vazio) \<and>
     contar_notas_ou_itens other DataFrame ''xyz'' (Some ''Acme'') = Inr (Erro msg_vazio) \<and>
     obter_top_n_itens_por gsum argsort DataFrame ''xyz'' (PyInt 5) ''maior'' =
       Inr (Erro msg_vazio) \<and>
     obter_top_n_fornecedores_por_valor gsum argsort DataFrame (PyStr '' 5 '') ''maior'' =
       Inr (Erro msg_vazio)"
proof (intro allI)
  fix nansum :: "series \<Rightarrow> cell" and gsum :: "series \<Rightarrow> cell"
    and argsort :: "series \<Rightarrow> nat list" and other :: regex_engine
  have e: "df_empty DataFrame"
    by (simp add: df_empty_def DataFrame_def)
  have c: "int_n (PyInt 5) = Converted 5" "int_n (PyStr '' 5 '') = Converted 5"
    by (simp_all add: int_n_defs)
  from empty_state_guard [of DataFrame nansum "''xyz''" other "''xyz''" "Some ''Acme''" gsum
      argsort "''xyz''" "PyInt 5" "''maior''", THEN mp, OF e]
    empty_state_guard [of DataFrame nansum "''xyz''" other "''xyz''" "Some ''Acme''" gsum
      argsort "''xyz''" "PyStr '' 5 ''" "''maior''", THEN mp, OF e]
  show "df_empty DataFrame \<and>
     calcular_valor_total_gasto nansum DataFrame = Inr (Erro msg_vazio_ou_nao_carregado) \<and>
     encontrar_item_mais_caro_ou_barato DataFrame ''xyz'' = Inr (Erro msg_vazio) \<and>
     contar_notas_ou_itens other DataFrame ''xyz'' (Some ''Acme'') = Inr (Erro msg_vazio) \<and>
     obter_top_n_itens_por gsum argsort DataFrame ''xyz'' (PyInt 5) ''maior'' =
       Inr (Erro msg_vazio) \<and>
     obter_top_n_fornecedores_por_valor gsum argsort DataFrame (PyStr '' 5 '') ''maior'' =
       Inr (Erro msg_vazio)"
    using e c by simp
qed

theorem empty_state_guard_counterexample:
  "\<forall>gsum argsort.
     df_empty DataFrame \<and>
     obter_top_n_itens_por gsum argsort DataFrame ''valor'' (PyStr ''abc'') ''maior'' =
       Inr (Erro (msg_n_invalido ''abc'')) \<and>
     obter_top_n_itens_por gsum argsort DataFrame ''valor'' (PyStr ''abc'') ''maior'' \<noteq>
       Inr (Erro msg_vazio) \<and>
     obter_top_n_fornecedores_por_valor gsum argsort DataFrame PyNone ''maior'' \<noteq>
       Inr (Erro msg_vazio)"
  by (simp add: df_empty_def DataFrame_def obter_top_n_itens_por_def
      obter_top_n_fornecedores_por_valor_def int_n_defs msg_n_invalido_def)

lemma df_empty_boolean_index:
  "\<not> df_empty df \<Longrightarrow> df_empty (boolean_index msk df) = (\<forall>b \<in> set msk. \<not> b)"
  by (auto simp: df_empty_def boolean_index_def filter_empty_conv)

lemma contar_invalid:
  "contar_o_que \<noteq> ''notas'' \<Longrightarrow> contar_o_que \<noteq> ''itens'' \<Longrightarrow>
   contar df contar_o_que = Inr (Erro msg_contar_invalido)"
  by (simp add: contar_def)

lemma contar_notas_ou_itens_filtered:
  assumes "\<not> df_empty df" and "g \<noteq> []" and "labelled df FORNECEDOR = [vs]"
    and "str_contains other vs g = Inr msk"
  shows "contar_notas_ou_itens other df w (Some g) =
           (if \<exists>b \<in> set msk. b then contar (boolean_index msk df) w
            else Inr (Erro (msg_nenhum_fornecedor g)))"
  using assms by (auto simp: contar_notas_ou_itens_def Let_def df_empty_boolean_index)

text \<open>
  Claim C4, as amended. On a non-empty table:
  \<^item> a count \<open>n\<close> that \<^verbatim>\<open>int\<close> rejects with \<^verbatim>\<open>ValueError\<close> or \<^verbatim>\<open>TypeError\<close> (\<^verbatim>\<open>None\<close>, a text that
    is no integer literal, the float \<^verbatim>\<open>nan\<close>) makes both top-n tools return the error whose
    message ends with the text of \<open>n\<close>, and nothing is aggregated; the float infinity
    makes \<^verbatim>\<open>int\<close> raise \<^verbatim>\<open>OverflowError\<close>, which escapes both tools;
  \<^item> a \<open>metrica\<close> other than \<^verbatim>\<open>'quantidade'\<close> and \<^verbatim>\<open>'valor'\<close> makes \<^verbatim>\<open>obter_top_n_itens_por\<close>
    return the fixed invalid-metric error, whatever the table holds;
  \<^item> a \<open>contar_o_que\<close> other than \<^verbatim>\<open>'notas'\<close> and \<^verbatim>\<open>'itens'\<close> never yields a count: without a
    supplier filter, and with a filter that keeps some row, the result is the fixed
    invalid-parameter error; with a filter that keeps no row it is the no-supplier error;
  \<^item> \<open>ordenacao\<close> and \<open>ordem\<close> are not validated: every \<open>ordenacao\<close> other than \<^verbatim>\<open>'caro'\<close>
    behaves as \<^verbatim>\<open>'barato'\<close> and every \<open>ordem\<close> other than \<^verbatim>\<open>'maior'\<close> as \<^verbatim>\<open>'menor'\<close>.

  The two fixed messages do not name the value received.
\<close>

theorem invalid_parameters:
  "(int_n PyNone = Rejected ''None'' \<and>
    int_n (PyFloat NotANumber) = Rejected ''nan'' \<and>
    int_n (PyFloat Infinite) = Raised OverflowError \<and>
    (int_of_str s = None \<longrightarrow> int_n (PyStr s) = Rejected s)) \<and>
   (\<not> df_empty df \<longrightarrow>
     (int_n n = Rejected t \<longrightarrow>
        obter_top_n_itens_por gsum argsort df metrica n ordem = Inr (Erro (msg_n_invalido t)) \<and>
        obter_top_n_fornecedores_por_valor gsum argsort df n ordem =
          Inr (Erro (msg_n_invalido t)) \<and>
        msg_n_invalido t = msg_n_invalido_prefixo @ t) \<and>
     (int_n n = Raised e \<longrightarrow>
        obter_top_n_itens_por gsum argsort df metrica n ordem = Inl e \<and>
        obter_top_n_fornecedores_por_valor gsum argsort df n ordem = Inl e) \<and>
     (int_n n = Converted k \<and> metrica \<noteq> ''quantidade'' \<and> metrica \<noteq> ''valor'' \<longrightarrow>
        obter_top_n_itens_por gsum argsort df metrica n ordem = Inr (Erro msg_metrica_invalida)) \<and>
     (contar_o_que \<noteq> ''notas'' \<and> contar_o_que \<noteq> ''itens'' \<longrightarrow>
        (\<forall>c. contar_notas_ou_itens other df contar_o_que fornecedor \<noteq> Inr (Contagem c)) \<and>
        (fornecedor = None \<or> fornecedor = Some [] \<longrightarrow>
           contar_notas_ou_itens other df contar_o_que fornecedor =
             Inr (Erro msg_contar_invalido)) \<and>
        (\<forall>g vs msk.
           fornecedor = Some g \<and> g \<noteq> [] \<and> labelled df FORNECEDOR = [vs] \<and>
           str_contains other vs g = Inr msk \<longrightarrow>
           contar_notas_ou_itens other df contar_o_que fornecedor =
             Inr (Erro (if \<exists>b \<in> set msk. b then msg_contar_invalido
                        else msg_nenhum_fornecedor g)))) \<and>
     (ordenacao \<noteq> ''caro'' \<longrightarrow>
        encontrar_item_mais_caro_ou_barato df ordenacao =
          encontrar_item_mais_caro_ou_barato df ''barato'') \<and>
     (ordem \<noteq> ''maior'' \<longrightarrow>
        obter_top_n_itens_por gsum argsort df metrica n ordem =
          obter_top_n_itens_por gsum argsort df metrica n ''menor'' \<and>
        obter_top_n_fornecedores_por_valor gsum argsort df n ordem =
          obter_top_n_fornecedores_por_valor gsum argsort df n ''menor''))"
proof (intro impI conjI allI)
  show "int_n PyNone = Rejected ''None''"
    and "int_n (PyFloat NotANumber) = Rejected ''nan''"
    and "int_n (PyFloat Infinite) = Raised OverflowError"
    by (simp_all add: int_n_def)
next
  assume "int_of_str s = None"
  then show "int_n (PyStr s) = Rejected s" by (simp add: int_n_def)
next
  assume "int_n n = Rejected t"
  then show "obter_top_n_itens_por gsum argsort df metrica n ordem = Inr (Erro (msg_n_invalido t))"
    and "obter_top_n_fornecedores_por_valor gsum argsort df n ordem = Inr (Erro (msg_n_invalido t))"
    by (simp_all add: obter_top_n_itens_por_def obter_top_n_fornecedores_por_valor_def)
next
  show "msg_n_invalido t = msg_n_invalido_prefixo @ t"
    by (simp add: msg_n_invalido_def)
next
  assume "int_n n = Raised e"
  then show "obter_top_n_itens_por gsum argsort df metrica n ordem = Inl e"
    and "obter_top_n_fornecedores_por_valor gsum argsort df n ordem = Inl e"
    by (simp_all add: obter_top_n_itens_por_def obter_top_n_fornecedores_por_valor_def)
next
  assume "\<not> df_empty df"
    and "int_n n = Converted k \<and> metrica \<noteq> ''quantidade'' \<and> metrica \<noteq> ''valor''"
  then show "obter_top_n_itens_por gsum argsort df metrica n ordem = Inr (Erro msg_metrica_invalida)"
    by (simp add: obter_top_n_itens_por_def)
next
  fix c
  assume "\<not> df_empty df" and "contar_o_que \<noteq> ''notas'' \<and> contar_o_que \<noteq> ''itens''"
  then show "contar_notas_ou_itens other df contar_o_que fornecedor \<noteq> Inr (Contagem c)"
    by (simp add: contar_notas_ou_itens_def contar_def Let_def
        split: option.splits sum.splits list.splits)
next
  assume "\<not> df_empty df" and "contar_o_que \<noteq> ''notas'' \<and> contar_o_que \<noteq> ''itens''"
    and "fornecedor = None \<or> fornecedor = Some []"
  then show "contar_notas_ou_itens other df contar_o_que fornecedor = Inr (Erro msg_contar_invalido)"
    by (auto simp: contar_notas_ou_itens_def contar_def)
next
  fix g vs msk
  assume ne: "\<not> df_empty df" and w: "contar_o_que \<noteq> ''notas'' \<and> contar_o_que \<noteq> ''itens''"
    and f: "fornecedor = Some g \<and> g \<noteq> [] \<and> labelled df FORNECEDOR = [vs] \<and>
           str_contains other vs g = Inr msk"
  from f have "contar_notas_ou_itens other df contar_o_que fornecedor =
           (if \<exists>b \<in> set msk. b then contar (boolean_index msk df) contar_o_que
            else Inr (Erro (msg_nenhum_fornecedor g)))"
    using contar_notas_ou_itens_filtered [OF ne, of g vs other msk contar_o_que] by simp
  also have "\<dots> = Inr (Erro (if \<exists>b \<in> set msk. b then msg_contar_invalido
                        else msg_nenhum_fornecedor g))"
    using w by (auto simp: contar_invalid)
  finally show "contar_notas_ou_itens other df contar_o_que fornecedor =
             Inr (Erro (if \<exists>b \<in> set msk. b then msg_contar_invalido
                        else msg_nenhum_fornecedor g))" .
next
  assume "ordenacao \<noteq> ''caro''"
  then show "encontrar_item_mais_caro_ou_barato df ordenacao =
          encontrar_item_mais_caro_ou_barato df ''barato''"
    by (simp add: encontrar_item_mais_caro_ou_barato_def cong: sum.case_cong)
next
  assume "ordem \<noteq> ''maior''"
  then show "obter_top_n_itens_por gsum argsort df metrica n ordem =
          obter_top_n_itens_por gsum argsort df metrica n ''menor''"
    and "obter_top_n_fornecedores_por_valor gsum argsort df n ordem =
          obter_top_n_fornecedores_por_valor gsum argsort df n ''menor''"
    by (simp_all add: obter_top_n_itens_por_def obter_top_n_fornecedores_por_valor_def
        cong: sum.case_cong if_cong conversion.case_cong)
qed

lemmas regex_defs =
  re_compile_def parse_pattern.simps parse_repeat_def is_repeat_def is_special_def
  is_ascii_alnum_def atom_matches_def lower_char_def


lemmas top_n_eval_defs =
  obter_top_n_itens_por_def obter_top_n_fornecedores_por_valor_def groupby_sum_def
  group_keys_def group_values_def key_le_def num_le_def num_less_def num_key_def
  dtype_of_def is_str_def is_int_def int_of_cell_def wrap64_def nlargest_def nsmallest_def
  select_n_def mergesort_by_def negated_def tabela_exemplo_def frame_defs

lemmas extremo_eval_defs =
  encontrar_item_mais_caro_ou_barato_def idxmax_def idxmin_def argmax_def argmin_def
  num_less_def num_key_def dtype_of_def is_str_def is_int_def tabela_exemplo_def frame_defs

lemma tabela_exemplo_not_empty: "\<not> df_empty tabela_exemplo"
  by (simp add: df_empty_def tabela_exemplo_def)

lemma tabela_exemplo_fornecedor:
  "labelled tabela_exemplo FORNECEDOR =
     [[Str ''Acme Corp'', Str ''Acme Corp'', Str ''A+B Ltda'', Str ''Delta'']]"
  by (simp add: labelled_def tabela_exemplo_def)

lemma tabela_exemplo_mask_acme:
  "str_contains other [Str ''Acme Corp'', Str ''Acme Corp'', Str ''A+B Ltda'', Str ''Delta'']
     ''acme'' = Inr [True, True, False, False]"
  by (simp add: str_contains_def dtype_of_def is_str_def regex_defs)

lemma tabela_exemplo_mask_zeta:
  "str_contains other [Str ''Acme Corp'', Str ''Acme Corp'', Str ''A+B Ltda'', Str ''Delta'']
     ''zeta'' = Inr [False, False, False, False]"
  by (simp add: str_contains_def dtype_of_def is_str_def regex_defs)

theorem invalid_parameters_witness:
  "\<forall>gsum argsort other.
     \<not> df_empty tabela_exemplo \<and>
     int_of_str ''abc'' = None \<and>
     int_n (PyStr ''abc'') = Rejected ''abc'' \<and>
     obter_top_n_itens_por gsum argsort tabela_exemplo ''peso'' (PyStr ''abc'') ''xx'' =
       Inr (Erro (msg_n_invalido ''abc'')) \<and>
     obter_top_n_fornecedores_por_valor gsum argsort tabela_exemplo (PyStr ''abc'') ''xx'' =
       Inr (Erro (msg_n_invalido ''abc'')) \<and>
     obter_top_n_itens_por gsum argsort tabela_exemplo ''valor'' (PyFloat Infinite) ''maior'' =
       Inl OverflowError \<and>
     int_n (PyInt 3) = Converted 3 \<and>
     obter_top_n_itens_por gsum argsort tabela_exemplo ''peso'' (PyInt 3) ''xx'' =
       Inr (Erro msg_metrica_invalida) \<and>
     contar_notas_ou_itens other tabela_exemplo ''tudo'' None = Inr (Erro msg_contar_invalido) \<and>
     contar_notas_ou_itens other tabela_exemplo ''tudo'' (Some ''acme'') =
       Inr (Erro msg_contar_invalido) \<and>
     contar_notas_ou_itens other tabela_exemplo ''tudo'' (Some ''zeta'') =
       Inr (Erro (msg_nenhum_fornecedor ''zeta'')) \<and>
     encontrar_item_mais_caro_ou_barato tabela_exemplo ''xyz'' =
       encontrar_item_mais_caro_ou_barato tabela_exemplo ''barato'' \<and>
     obter_top_n_itens_por gsum argsort tabela_exemplo ''valor'' (PyInt 3) ''xx'' =
       obter_top_n_itens_por gsum argsort tabela_exemplo ''valor'' (PyInt 3) ''menor''"
proof (intro allI)
  fix gsum :: "series \<Rightarrow> cell" and argsort :: "series \<Rightarrow> nat list" and other :: regex_engine
  note a = tabela_exemplo_not_empty
  have s: "int_of_str ''abc'' = None"
    by (simp add: int_n_defs)
  have c: "int_n (PyInt 3) = Converted 3"
    by (simp add: int_n_def)
  note t0 = invalid_parameters [of "''abc''" tabela_exemplo "PyStr ''abc''" "''abc''" gsum argsort
      "''peso''" "''xx''" OverflowError 0 "''tudo''" other None "''xyz''"]
  note r = t0 [THEN conjunct1, THEN conjunct2, THEN conjunct2, THEN conjunct2, THEN mp, OF s]
  note n1 = t0 [THEN conjunct2, THEN mp, OF a, THEN conjunct1, THEN mp, OF r]
  note t1 = invalid_parameters [of "''abc''" tabela_exemplo "PyFloat Infinite" "''abc''" gsum
      argsort "''valor''" "''maior''" OverflowError 0 "''tudo''" other None "''xyz''"]
  note o1 = t1 [THEN conjunct2, THEN mp, OF a, THEN conjunct2, THEN conjunct1, THEN mp,
      OF t1 [THEN conjunct1, THEN conjunct2, THEN conjunct2, THEN conjunct1], THEN conjunct1]
  note t2 = invalid_parameters [of "''abc''" tabela_exemplo "PyInt 3" "''abc''" gsum argsort
      "''peso''" "''xx''" OverflowError 3 "''tudo''" other None "''xyz''",
      THEN conjunct2, THEN mp, OF a, THEN conjunct2, THEN conjunct2]
  have m: "int_n (PyInt 3) = Converted 3 \<and> ''peso'' \<noteq> ''quantidade'' \<and> ''peso'' \<noteq> ''valor''"
    using c by simp
  note m1 = t2 [THEN conjunct1, THEN mp, OF m]
  have w: "''tudo'' \<noteq> ''notas'' \<and> ''tudo'' \<noteq> ''itens''" by simp
  have f: "(None :: string option) = None \<or> (None :: string option) = Some []" by simp
  note c1 = t2 [THEN conjunct2, THEN conjunct1, THEN mp, OF w, THEN conjunct2, THEN conjunct1,
      THEN mp, OF f]
  have o: "''xyz'' \<noteq> ''caro''" by simp
  note e1 = t2 [THEN conjunct2, THEN conjunct2, THEN conjunct1, THEN mp, OF o]
  note t3 = invalid_parameters [of "''abc''" tabela_exemplo "PyInt 3" "''abc''" gsum argsort
      "''valor''" "''xx''" OverflowError 3 "''tudo''" other "Some ''acme''" "''xyz''",
      THEN conjunct2, THEN mp, OF a, THEN conjunct2, THEN conjunct2]
  have x: "''xx'' \<noteq> ''maior''" by simp
  note r1 = t3 [THEN conjunct2, THEN conjunct2, THEN conjunct2, THEN mp, OF x, THEN conjunct1]
  have g1: "Some ''acme'' = Some ''acme'' \<and> ''acme'' \<noteq> [] \<and>
      labelled tabela_exemplo FORNECEDOR =
        [[Str ''Acme Corp'', Str ''Acme Corp'', Str ''A+B Ltda'', Str ''Delta'']] \<and>
      str_contains other [Str ''Acme Corp'', Str ''Acme Corp'', Str ''A+B Ltda'', Str ''Delta'']
        ''acme'' = Inr [True, True, False, False]"
    using tabela_exemplo_fornecedor tabela_exemplo_mask_acme by simp
  have c2: "contar_notas_ou_itens other tabela_exemplo ''tudo'' (Some ''acme'') =
       Inr (Erro msg_contar_invalido)"
    using t3 [THEN conjunct2, THEN conjunct1, THEN mp, OF w, THEN conjunct2, THEN conjunct2,
        THEN spec, THEN spec, THEN spec, THEN mp, OF g1]
    by simp
  note t4 = invalid_parameters [of "''abc''" tabela_exemplo "PyInt 3" "''abc''" gsum argsort
      "''valor''" "''xx''" OverflowError 3 "''tudo''" other "Some ''zeta''" "''xyz''",
      THEN conjunct2, THEN mp, OF a, THEN conjunct2, THEN conjunct2]
  have g2: "Some ''zeta'' = Some ''zeta'' \<and> ''zeta'' \<noteq> [] \<and>
      labelled tabela_exemplo FORNECEDOR =
        [[Str ''Acme Corp'', Str ''Acme Corp'', Str ''A+B Ltda'', Str ''Delta'']] \<and>
      str_contains other [Str ''Acme Corp'', Str ''Acme Corp'', Str ''A+B Ltda'', Str ''Delta'']
        ''zeta'' = Inr [False, False, False, False]"
    using tabela_exemplo_fornecedor tabela_exemplo_mask_zeta by simp
  have c3: "contar_notas_ou_itens other tabela_exemplo ''tudo'' (Some ''zeta'') =
       Inr (Erro (msg_nenhum_fornecedor ''zeta''))"
    using t4 [THEN conjunct2, THEN conjunct1, THEN mp, OF w, THEN conjunct2, THEN conjunct2,
        THEN spec, THEN spec, THEN spec, THEN mp, OF g2]
    by simp
  show "\<not> df_empty tabela_exemplo \<and>
     int_of_str ''abc'' = None \<and>
     int_n (PyStr ''abc'') = Rejected ''abc'' \<and>
     obter_top_n_itens_por gsum argsort tabela_exemplo ''peso'' (PyStr ''abc'') ''xx'' =
       Inr (Erro (msg_n_invalido ''abc'')) \<and>
     obter_top_n_fornecedores_por_valor gsum argsort tabela_exemplo (PyStr ''abc'') ''xx'' =
       Inr (Erro (msg_n_invalido ''abc'')) \<and>
     obter_top_n_itens_por gsum argsort tabela_exemplo ''valor'' (PyFloat Infinite) ''maior'' =
       Inl OverflowError \<and>
     int_n (PyInt 3) = Converted 3 \<and>
     obter_top_n_itens_por gsum argsort tabela_exemplo ''peso'' (PyInt 3) ''xx'' =
       Inr (Erro msg_metrica_invalida) \<and>
     contar_notas_ou_itens other tabela_exemplo ''tudo'' None = Inr (Erro msg_contar_invalido) \<and>
     contar_notas_ou_itens other tabela_exemplo ''tudo'' (Some ''acme'') =
       Inr (Erro msg_contar_invalido) \<and>
     contar_notas_ou_itens other tabela_exemplo ''tudo'' (Some ''zeta'') =
       Inr (Erro (msg_nenhum_fornecedor ''zeta'')) \<and>
     encontrar_item_mais_caro_ou_barato tabela_exemplo ''xyz'' =
       encontrar_item_mais_caro_ou_barato tabela_exemplo ''barato'' \<and>
     obter_top_n_itens_por gsum argsort tabela_exemplo ''valor'' (PyInt 3) ''xx'' =
       obter_top_n_itens_por gsum argsort tabela_exemplo ''valor'' (PyInt 3) ''menor''"
    by (intro conjI)
       (rule a s r c m1 c1 c2 c3 e1 r1 o1 n1 [THEN conjunct1]
          n1 [THEN conjunct2, THEN conjunct1])+
qed

theorem invalid_parameters_counterexample:
  "\<forall>gsum argsort.
     \<not> df_empty tabela_exemplo \<and>
     encontrar_item_mais_caro_ou_barato tabela_exemplo ''xyz'' =
       Inr (Item_extremo (Str ''B'') (Str ''Acme Corp'') (Flt 25) ''mais barato'') \<and>
     obter_top_n_itens_por gsum argsort tabela_exemplo ''valor'' (PyInt 3) ''xx'' =
       Inr (Series_json [(Str ''B'', Intg 50), (Str ''D'', Intg 75), (Str ''A'', Intg 100)]) \<and>
     obter_top_n_fornecedores_por_valor gsum argsort tabela_exemplo (PyFloat Infinite) ''maior'' =
       Inl OverflowError"
proof (intro allI conjI)
  fix gsum :: "series \<Rightarrow> cell" and argsort :: "series \<Rightarrow> nat list"
  show "\<not> df_empty tabela_exemplo" by (rule tabela_exemplo_not_empty)
  show "encontrar_item_mais_caro_ou_barato tabela_exemplo ''xyz'' =
       Inr (Item_extremo (Str ''B'') (Str ''Acme Corp'') (Flt 25) ''mais barato'')"
    by (simp add: extremo_eval_defs)
  show "obter_top_n_itens_por gsum argsort tabela_exemplo ''valor'' (PyInt 3) ''xx'' =
       Inr (Series_json [(Str ''B'', Intg 50), (Str ''D'', Intg 75), (Str ''A'', Intg 100)])"
    by (simp add: top_n_eval_defs int_n_def)
  show "obter_top_n_fornecedores_por_valor gsum argsort tabela_exemplo (PyFloat Infinite) ''maior'' =
       Inl OverflowError"
    by (simp add: obter_top_n_fornecedores_por_valor_def int_n_def)
qed

section \<open>Counting with and without a supplier filter\<close>







subsection \<open>A supplier name without special characters\<close>










section \<open>The shape of a consolidation\<close>

lemmas load_eval_defs =
  load_and_preprocess_data_def normalize_labels_def rename_def py_upper_def py_strip_def
  py_isspace_def upper_char_def columns_def labelled_def assign_column_def
  astype_str_def show_int_def show_nat.simps digit_char_def
  drop_columns_def merge_inner_def inner_join_indexers_def take_rows_def
  fillna_dict_def fillna_zero_def fill_cell_def zero_of_def dtype_of_def is_str_def is_int_def



lemma consolidado_repetido_load:
  "load_and_preprocess_data float_repr to_numeric (Some cabecalho_repetido) (Some itens_um) =
     Inr (Consolidated cabecalho_repetido itens_um consolidado_repetido)"
  by (simp add: load_eval_defs cabecalho_repetido_def itens_um_def consolidado_repetido_def)

section \<open>Missing values after the consolidation\<close>







section \<open>What the call does to its two arguments\<close>



lemma columns_assign_column: "columns (assign_column c f df) = columns df"
  by (simp add: assign_column_def columns_def comp_def if_distrib [of fst] cong: if_cong)









end
